theory Spec2Isabelle
  imports Main "HOL-Library.Word" "HOL-Library.Sublist"
begin

section \<open>The storage library as the adapter sees it\<close>

text \<open>
  The header \<^verbatim>\<open>src/hdf5_output.h\<close> defines one class, \<^verbatim>\<open>H5OutputFile\<close>, whose methods
  forward to the HDF5 C library. The library is not part of the repository, so it is a
  parameter of the model: a table of the constants the header uses and a function that
  answers every call, given the calls made so far. Every library call the adapter makes is
  appended to a trace together with the value the library returned.

  \<^verbatim>\<open>hid_t\<close> and \<^verbatim>\<open>herr_t\<close> are signed integers that the code only compares with zero;
  \<^verbatim>\<open>hsize_t\<close> is an unsigned 64-bit integer.
\<close>

type_synonym hid_t = int
type_synonym herr_t = int
type_synonym hsize_t = "64 word"

text \<open>
  The parameter types of the eight overloads of \<^verbatim>\<open>hdf5_type\<close> (lines 58 to 65). In the
  template methods below, \<open>T\<close> is the overload that the call \<^verbatim>\<open>hdf5_type(dummy)\<close> selects
  for the template argument; which overload that is, for an element type that has none of
  its own, is the subject of \<open>select_overload\<close>.
\<close>

datatype c_type =
    C_float
  | C_double
  | C_int
  | C_long
  | C_long_long
  | C_unsigned_int
  | C_unsigned_long
  | C_unsigned_long_long

text \<open>
  The library's native type identifiers. In the C library each name is a macro for a
  global \<^verbatim>\<open>hid_t\<close> whose value is fixed when the library starts; the model keeps the
  name, and the library parameter (\<open>H5T_NATIVE\<close> below) gives its run-time value.
\<close>

datatype h5t_native =
    H5T_NATIVE_FLOAT
  | H5T_NATIVE_DOUBLE
  | H5T_NATIVE_INT
  | H5T_NATIVE_LONG
  | H5T_NATIVE_LLONG
  | H5T_NATIVE_UINT
  | H5T_NATIVE_ULONG
  | H5T_NATIVE_ULLONG

datatype H5D_layout_t = H5D_COMPACT | H5D_CONTIGUOUS | H5D_CHUNKED

datatype H5S_class_t = H5S_SCALAR | H5S_SIMPLE | H5S_NULL

text \<open>
  One constructor per library function the header calls, with the arguments in the order
  of the C prototypes. \<open>'d\<close> is the caller's data buffer, which the adapter only passes on.
  \<^verbatim>\<open>H5Screate_simple\<close> is always called with \<^verbatim>\<open>maxdims = NULL\<close>, which is left out.
\<close>

datatype 'd h5call =
    H5Fcreate string nat hid_t hid_t
  | H5Fclose hid_t
  | H5Screate_simple int "hsize_t list"
  | H5Screate H5S_class_t
  | H5Pcreate hid_t
  | H5Pset_layout hid_t H5D_layout_t
  | H5Pset_chunk hid_t int "hsize_t list"
  | H5Pset_deflate hid_t nat
  | H5Dcreate hid_t string hid_t hid_t hid_t hid_t hid_t
  | H5Dwrite hid_t hid_t hid_t hid_t hid_t 'd
  | H5Sclose hid_t
  | H5Dclose hid_t
  | H5Pclose hid_t
  | H5Oopen hid_t string hid_t
  | H5Acreate hid_t string hid_t hid_t hid_t hid_t
  | H5Awrite hid_t hid_t 'd
  | H5Aclose hid_t
  | H5Oclose hid_t

type_synonym 'd trace = "('d h5call \<times> int) list"

record 'd h5lib =
  H5P_DEFAULT :: hid_t
  H5P_DATASET_CREATE :: hid_t
  H5S_ALL :: hid_t
  H5F_ACC_TRUNC :: nat
  H5T_NATIVE :: "h5t_native \<Rightarrow> hid_t"
  respond :: "'d trace \<Rightarrow> 'd h5call \<Rightarrow> int"

text \<open>Making a library call: the library answers, and the call is logged with its answer.\<close>

definition h5 :: "'d h5lib \<Rightarrow> 'd h5call \<Rightarrow> 'd trace \<Rightarrow> int \<times> 'd trace" where
  "h5 lib c tr = (let r = respond lib tr c in (r, tr @ [(c, r)]))"

section \<open>The adapter\<close>

definition CHUNK_SIZE :: hsize_t where
  "CHUNK_SIZE = 8192"

definition DEFLATE :: nat where
  "DEFLATE = 6"

text \<open>The class has one data member, \<^verbatim>\<open>hid_t file_id\<close>.\<close>

record H5OutputFile =
  file_id :: hid_t

text \<open>
  A method either returns (with the trace and the object as they are then), or it reaches
  \<^verbatim>\<open>io_error\<close>, which writes the message to the error stream and calls \<^verbatim>\<open>abort()\<close>
  (after \<^verbatim>\<open>MPI_Abort\<close> when built with \<^verbatim>\<open>USEMPI\<close>): the process ends there and nothing
  after the call runs. \<open>Fatal\<close> keeps the message and the library calls made until then.
\<close>

datatype 'd outcome =
    Returns "'d trace" H5OutputFile
  | Fatal string "'d trace"

definition io_error :: "string \<Rightarrow> 'd trace \<Rightarrow> 'd outcome" where
  "io_error message tr = Fatal message tr"

text \<open>The constructor (lines 30 to 32).\<close>

definition constructor :: H5OutputFile where
  "constructor = \<lparr>file_id = - 1\<rparr>"

text \<open>\<^verbatim>\<open>create\<close> (lines 35 to 40).\<close>

definition create :: "'d h5lib \<Rightarrow> string \<Rightarrow> 'd trace \<Rightarrow> H5OutputFile \<Rightarrow> 'd outcome" where
  "create lib filename tr s =
     (if file_id s \<ge> 0 then io_error ''Attempted to create file when already open!'' tr
      else
        let (r, tr1) = h5 lib (H5Fcreate filename (H5F_ACC_TRUNC lib) (H5P_DEFAULT lib) (H5P_DEFAULT lib)) tr;
            s1 = s\<lparr>file_id := r\<rparr>
        in if file_id s1 < 0 then io_error (''Failed to create output file: '' @ filename) tr1
           else Returns tr1 s1)"

text \<open>\<^verbatim>\<open>close\<close> (lines 43 to 48). The value \<^verbatim>\<open>H5Fclose\<close> returns is dropped.\<close>

definition close :: "'d h5lib \<Rightarrow> 'd trace \<Rightarrow> H5OutputFile \<Rightarrow> 'd outcome" where
  "close lib tr s =
     (if file_id s < 0 then io_error ''Attempted to close file which is not open!'' tr
      else
        let (r, tr1) = h5 lib (H5Fclose (file_id s)) tr
        in Returns tr1 (s\<lparr>file_id := - 1\<rparr>))"

text \<open>The destructor (lines 51 to 55).\<close>

definition destructor :: "'d h5lib \<Rightarrow> 'd trace \<Rightarrow> H5OutputFile \<Rightarrow> 'd outcome" where
  "destructor lib tr s = (if file_id s \<ge> 0 then close lib tr s else Returns tr s)"

text \<open>
  \<^verbatim>\<open>hdf5_type\<close> (lines 58 to 65): eight overloads, selected by the static type of the
  argument, whose value is not used.
\<close>

fun hdf5_type :: "c_type \<Rightarrow> h5t_native" where
  "hdf5_type C_float = H5T_NATIVE_FLOAT"
| "hdf5_type C_double = H5T_NATIVE_DOUBLE"
| "hdf5_type C_int = H5T_NATIVE_INT"
| "hdf5_type C_long = H5T_NATIVE_LONG"
| "hdf5_type C_long_long = H5T_NATIVE_LLONG"
| "hdf5_type C_unsigned_int = H5T_NATIVE_UINT"
| "hdf5_type C_unsigned_long = H5T_NATIVE_ULONG"
| "hdf5_type C_unsigned_long_long = H5T_NATIVE_ULLONG"

text \<open>
  The call \<^verbatim>\<open>hdf5_type(dummy)\<close> on lines 86 and 136 is resolved by the C++ compiler from
  the static type of its argument, which is the template argument. An argument type with
  an overload of its own selects it. For the other arithmetic types every overload is
  viable through a standard conversion, and the compiler takes the one whose conversion
  ranks best, if there is exactly one: the integral types below \<^verbatim>\<open>int\<close> are promoted to
  \<^verbatim>\<open>int\<close> (with a 16-bit \<^verbatim>\<open>short\<close> and a wider \<^verbatim>\<open>int\<close>), which beats every
  conversion; \<^verbatim>\<open>long double\<close> reaches all eight parameters by conversions of the same
  rank, and the call is ambiguous. \<open>None\<close> stands for a call that does not compile.
  Ranks: 0 for the same type, 1 for a promotion, 2 for a conversion.
\<close>

datatype element_type =
    E_bool
  | E_char
  | E_signed_char
  | E_unsigned_char
  | E_short
  | E_unsigned_short
  | E_int
  | E_unsigned_int
  | E_long
  | E_unsigned_long
  | E_long_long
  | E_unsigned_long_long
  | E_float
  | E_double
  | E_long_double

fun parameter_type :: "c_type \<Rightarrow> element_type" where
  "parameter_type C_float = E_float"
| "parameter_type C_double = E_double"
| "parameter_type C_int = E_int"
| "parameter_type C_long = E_long"
| "parameter_type C_long_long = E_long_long"
| "parameter_type C_unsigned_int = E_unsigned_int"
| "parameter_type C_unsigned_long = E_unsigned_long"
| "parameter_type C_unsigned_long_long = E_unsigned_long_long"

fun promotes_to_int :: "element_type \<Rightarrow> bool" where
  "promotes_to_int E_bool = True"
| "promotes_to_int E_char = True"
| "promotes_to_int E_signed_char = True"
| "promotes_to_int E_unsigned_char = True"
| "promotes_to_int E_short = True"
| "promotes_to_int E_unsigned_short = True"
| "promotes_to_int a = False"

definition conversion_rank :: "element_type \<Rightarrow> element_type \<Rightarrow> nat" where
  "conversion_rank a p =
     (if a = p then 0
      else if (p = E_int \<and> promotes_to_int a) \<or> (a = E_float \<and> p = E_double) then 1
      else 2)"

definition overloads :: "c_type list" where
  "overloads =
     [C_float, C_double, C_int, C_long, C_long_long, C_unsigned_int, C_unsigned_long,
      C_unsigned_long_long]"

definition select_overload :: "element_type \<Rightarrow> c_type option" where
  "select_overload a =
     (let best = fold min (map (\<lambda>c. conversion_rank a (parameter_type c)) overloads) 2
      in case filter (\<lambda>c. conversion_rank a (parameter_type c) = best) overloads of
           [c] \<Rightarrow> Some c
         | _ \<Rightarrow> None)"

definition resolve_hdf5_type :: "element_type \<Rightarrow> h5t_native option" where
  "resolve_hdf5_type a = map_option hdf5_type (select_overload a)"

text \<open>
  The three loops of \<^verbatim>\<open>write_dataset_nd\<close> (lines 96-97, 101-102 and 109-110), each
  \<^verbatim>\<open>for(int i=0; i<rank; i+=1)\<close>. The counter never exceeds \<open>rank\<close>, so it cannot
  overflow. \<open>dims\<close> is the array the pointer refers to; the C code reads \<^verbatim>\<open>dims[i]\<close> for
  every \<open>i < rank\<close>, which is defined only when the array has at least \<open>rank\<close> entries.
\<close>

function nonzero_size_loop :: "int \<Rightarrow> int \<Rightarrow> hsize_t list \<Rightarrow> int \<Rightarrow> int" where
  "nonzero_size_loop i rank dims nonzero_size =
     (if i < rank
      then nonzero_size_loop (i + 1) rank dims (if dims ! nat i = 0 then 0 else nonzero_size)
      else nonzero_size)"
  by pat_completeness auto
termination
  by (relation "measure (\<lambda>(i, rank, dims, nz). nat (rank - i))") auto

function large_dataset_loop :: "int \<Rightarrow> int \<Rightarrow> hsize_t list \<Rightarrow> int \<Rightarrow> int" where
  "large_dataset_loop i rank dims large_dataset =
     (if i < rank
      then large_dataset_loop (i + 1) rank dims (if dims ! nat i > CHUNK_SIZE then 1 else large_dataset)
      else large_dataset)"
  by pat_completeness auto
termination
  by (relation "measure (\<lambda>(i, rank, dims, lg). nat (rank - i))") auto

function chunks_loop :: "int \<Rightarrow> int \<Rightarrow> hsize_t list \<Rightarrow> hsize_t list \<Rightarrow> hsize_t list" where
  "chunks_loop i rank dims chunks =
     (if i < rank
      then chunks_loop (i + 1) rank dims (chunks[nat i := min CHUNK_SIZE (dims ! nat i)])
      else chunks)"
  by pat_completeness auto
termination
  by (relation "measure (\<lambda>(i, rank, dims, ch). nat (rank - i))") auto

text \<open>Each loop equation is unfolded one turn at a time, by hand.\<close>

declare nonzero_size_loop.simps [simp del]
declare large_dataset_loop.simps [simp del]
declare chunks_loop.simps [simp del]

text \<open>
  \<^verbatim>\<open>write_dataset_nd\<close> (lines 81 to 131). \<open>T\<close> is the overload selected for the
  template argument. The default
  argument \<^verbatim>\<open>filetype_id=-1\<close> is passed explicitly. \<^verbatim>\<open>new hsize_t[rank]\<close> gives an
  array of \<open>rank\<close> entries, all of which the third loop overwrites.
  The property list \<open>prop_id\<close> is created, configured and closed; the call of
  \<^verbatim>\<open>H5Dcreate\<close> on lines 118-119 passes \<^verbatim>\<open>H5P_DEFAULT\<close> in all three property-list
  positions (link creation, dataset creation, dataset access).
\<close>

definition write_dataset_nd ::
  "'d h5lib \<Rightarrow> c_type \<Rightarrow> string \<Rightarrow> int \<Rightarrow> hsize_t list \<Rightarrow> 'd \<Rightarrow> hid_t \<Rightarrow> 'd trace \<Rightarrow> H5OutputFile \<Rightarrow> 'd outcome"
where
  "write_dataset_nd lib T name rank dims data filetype_id0 tr s =
     (let memtype_id = H5T_NATIVE lib (hdf5_type T);
          filetype_id = (if filetype_id0 < 0 then memtype_id else filetype_id0);
          (dspace_id, tr1) = h5 lib (H5Screate_simple rank dims) tr;
          nonzero_size = nonzero_size_loop 0 rank dims 1;
          large_dataset = large_dataset_loop 0 rank dims 0;
          (prop_id, tr2) = h5 lib (H5Pcreate (H5P_DATASET_CREATE lib)) tr1;
          tr3 =
            (if nonzero_size \<noteq> 0 \<and> large_dataset \<noteq> 0
             then
               let chunks = chunks_loop 0 rank dims (replicate (nat rank) 0);
                   (r1, tra) = h5 lib (H5Pset_layout prop_id H5D_CHUNKED) tr2;
                   (r2, trb) = h5 lib (H5Pset_chunk prop_id rank chunks) tra;
                   (r3, trc) = h5 lib (H5Pset_deflate prop_id DEFLATE) trb
               in trc
             else tr2);
          (dset_id, tr4) =
            h5 lib (H5Dcreate (file_id s) name filetype_id dspace_id
                      (H5P_DEFAULT lib) (H5P_DEFAULT lib) (H5P_DEFAULT lib)) tr3
      in if dset_id < 0 then io_error (''Failed to create dataset: '' @ name) tr4
         else
           let (w, tr5) =
                 h5 lib (H5Dwrite dset_id memtype_id dspace_id (H5S_ALL lib) (H5P_DEFAULT lib) data) tr4
           in if w < 0 then io_error (''Failed to write dataset: '' @ name) tr5
              else
                let (c1, tr6) = h5 lib (H5Sclose dspace_id) tr5;
                    (c2, tr7) = h5 lib (H5Dclose dset_id) tr6;
                    (c3, tr8) = h5 lib (H5Pclose prop_id) tr7
                in Returns tr8 s)"

text \<open>\<^verbatim>\<open>write_dataset\<close> (lines 70 to 76).\<close>

definition write_dataset ::
  "'d h5lib \<Rightarrow> c_type \<Rightarrow> string \<Rightarrow> hsize_t \<Rightarrow> 'd \<Rightarrow> hid_t \<Rightarrow> 'd trace \<Rightarrow> H5OutputFile \<Rightarrow> 'd outcome"
where
  "write_dataset lib T name len data filetype_id tr s =
     (let rank = 1;
          dims = [len]
      in write_dataset_nd lib T name rank dims data filetype_id tr s)"

text \<open>
  \<^verbatim>\<open>write_attribute\<close> (lines 133 to 157). The source declares a local \<^verbatim>\<open>hid_t parent\<close>
  under the name of its string parameter \<^verbatim>\<open>parent\<close>; the model calls the handle
  \<open>parent_id\<close> and reads \<^verbatim>\<open>parent.c_str()\<close> and the \<^verbatim>\<open>+parent\<close> of the messages as the
  string parameter, the only reading under which those expressions are typed.
  \<^verbatim>\<open>H5Acreate\<close> on line 146 is given \<^verbatim>\<open>file_id\<close> as the object to attach to.
\<close>

definition write_attribute ::
  "'d h5lib \<Rightarrow> c_type \<Rightarrow> string \<Rightarrow> string \<Rightarrow> 'd \<Rightarrow> 'd trace \<Rightarrow> H5OutputFile \<Rightarrow> 'd outcome"
where
  "write_attribute lib T parent name data tr s =
     (let dtype_id = H5T_NATIVE lib (hdf5_type T);
          (parent_id, tr1) = h5 lib (H5Oopen (file_id s) parent (H5P_DEFAULT lib)) tr
      in if parent_id < 0 then io_error (''Unable to open object to write attribute: '' @ name) tr1
         else
           let (dspace_id, tr2) = h5 lib (H5Screate H5S_SCALAR) tr1;
               (attr_id, tr3) =
                 h5 lib (H5Acreate (file_id s) name dtype_id dspace_id
                           (H5P_DEFAULT lib) (H5P_DEFAULT lib)) tr2
           in if attr_id < 0
              then io_error (''Unable to create attribute '' @ name @ '' on object '' @ parent) tr3
              else
                let (w, tr4) = h5 lib (H5Awrite attr_id dtype_id data) tr3
                in if w < 0
                   then io_error (''Unable to write attribute '' @ name @ '' on object '' @ parent) tr4
                   else
                     let (c1, tr5) = h5 lib (H5Aclose attr_id) tr4;
                         (c2, tr6) = h5 lib (H5Sclose dspace_id) tr5;
                         (c3, tr7) = h5 lib (H5Oclose parent_id) tr6
                     in Returns tr7 s)"

section \<open>Using an adapter object\<close>

text \<open>
  A caller constructs an \<^verbatim>\<open>H5OutputFile\<close>, calls its public methods one after another
  and lets it go out of scope. \<open>exec\<close> dispatches one call, \<open>run_ops\<close> runs a sequence
  and stops at the first \<open>Fatal\<close> (the process is gone), and \<open>lifetime\<close> wraps the
  sequence between the constructor and the destructor. After \<^verbatim>\<open>abort()\<close> no destructor
  runs.
\<close>

datatype 'd adapter_op =
    Create string
  | Close
  | Write_dataset c_type string hsize_t 'd hid_t
  | Write_dataset_nd c_type string int "hsize_t list" 'd hid_t
  | Write_attribute c_type string string 'd

fun exec :: "'d h5lib \<Rightarrow> 'd adapter_op \<Rightarrow> 'd trace \<Rightarrow> H5OutputFile \<Rightarrow> 'd outcome" where
  "exec lib (Create filename) tr s = create lib filename tr s"
| "exec lib Close tr s = close lib tr s"
| "exec lib (Write_dataset T name len data filetype_id) tr s =
     write_dataset lib T name len data filetype_id tr s"
| "exec lib (Write_dataset_nd T name rank dims data filetype_id) tr s =
     write_dataset_nd lib T name rank dims data filetype_id tr s"
| "exec lib (Write_attribute T parent name data) tr s =
     write_attribute lib T parent name data tr s"

fun run_ops :: "'d h5lib \<Rightarrow> 'd adapter_op list \<Rightarrow> 'd trace \<Rightarrow> H5OutputFile \<Rightarrow> 'd outcome" where
  "run_ops lib [] tr s = Returns tr s"
| "run_ops lib (op # ops) tr s =
     (case exec lib op tr s of
        Returns tr1 s1 \<Rightarrow> run_ops lib ops tr1 s1
      | Fatal message tr1 \<Rightarrow> Fatal message tr1)"

definition lifetime :: "'d h5lib \<Rightarrow> 'd adapter_op list \<Rightarrow> 'd outcome" where
  "lifetime lib ops =
     (case run_ops lib ops [] constructor of
        Returns tr s \<Rightarrow> destructor lib tr s
      | Fatal message tr \<Rightarrow> Fatal message tr)"

section \<open>Reading a trace\<close>

text \<open>The library calls a method added to the trace it started from.\<close>

fun trace_of :: "'d outcome \<Rightarrow> 'd trace" where
  "trace_of (Returns tr s) = tr"
| "trace_of (Fatal message tr) = tr"

definition calls_made :: "'d trace \<Rightarrow> 'd outcome \<Rightarrow> 'd h5call list" where
  "calls_made tr out = map fst (drop (length tr) (trace_of out))"

text \<open>
  The calls that give a property list a chunked layout, chunk extents or a deflate filter;
  the dataset-creation property list a dataset is created with (the sixth argument of
  \<^verbatim>\<open>H5Dcreate\<close>); the object an attribute is created on (the first argument of
  \<^verbatim>\<open>H5Acreate\<close>); the handle an \<^verbatim>\<open>H5Oopen\<close> returned.
\<close>

fun configures_storage :: "'d h5call \<Rightarrow> bool" where
  "configures_storage (H5Pset_layout p l) = True"
| "configures_storage (H5Pset_chunk p n ch) = True"
| "configures_storage (H5Pset_deflate p lv) = True"
| "configures_storage c = False"

fun dataset_creation_plist :: "'d h5call \<Rightarrow> hid_t option" where
  "dataset_creation_plist (H5Dcreate loc name ty sp lcpl dcpl dapl) = Some dcpl"
| "dataset_creation_plist c = None"

fun attribute_location :: "'d h5call \<Rightarrow> hid_t option" where
  "attribute_location (H5Acreate loc name ty sp acpl aapl) = Some loc"
| "attribute_location c = None"

fun opened_object :: "'d h5call \<times> int \<Rightarrow> hid_t option" where
  "opened_object (H5Oopen loc name lapl, r) = Some r"
| "opened_object e = None"

text \<open>
  The discipline of file handles, read off a trace. The state is \<open>Some None\<close> when no
  handle is out, \<open>Some (Some h)\<close> when \<open>h\<close> was obtained from a successful
  \<^verbatim>\<open>H5Fcreate\<close> and not yet passed to \<^verbatim>\<open>H5Fclose\<close>, and \<open>None\<close> once the discipline
  was broken: a second handle obtained while one is out, or \<^verbatim>\<open>H5Fclose\<close> applied to
  anything but the handle that is out (a double close, or a close of a stranger).
\<close>

fun protocol_step :: "hid_t option option \<Rightarrow> 'd h5call \<times> int \<Rightarrow> hid_t option option" where
  "protocol_step st (H5Fcreate filename flags fcpl fapl, r) =
     (case st of
        None \<Rightarrow> None
      | Some held \<Rightarrow> if r < 0 then Some held else if held = None then Some (Some r) else None)"
| "protocol_step st (H5Fclose h, r) =
     (case st of
        None \<Rightarrow> None
      | Some held \<Rightarrow> if held = Some h then Some None else None)"
| "protocol_step st (c, r) = st"

definition file_protocol :: "'d trace \<Rightarrow> hid_t option option" where
  "file_protocol tr = foldl protocol_step (Some None) tr"

text \<open>The handle the object holds: \<open>file_id\<close> when it is not negative.\<close>

definition holds :: "H5OutputFile \<Rightarrow> hid_t option" where
  "holds s = (if file_id s \<ge> 0 then Some (file_id s) else None)"

text \<open>
  The library calls whose result the header compares with zero (lines 39, 120, 123, 140,
  147 and 150). The results of all other calls are dropped.
\<close>

fun checked :: "'d h5call \<Rightarrow> bool" where
  "checked (H5Fcreate filename flags fcpl fapl) = True"
| "checked (H5Dcreate loc name ty sp lcpl dcpl dapl) = True"
| "checked (H5Dwrite dset mty msp fsp xfer buf) = True"
| "checked (H5Oopen loc name lapl) = True"
| "checked (H5Acreate loc name ty sp acpl aapl) = True"
| "checked (H5Awrite attr mty buf) = True"
| "checked c = False"

definition failed_checks :: "'d trace \<Rightarrow> 'd trace" where
  "failed_checks es = filter (\<lambda>e. checked (fst e) \<and> snd e < 0) es"

text \<open>
  A run of calls that ends in a detected library failure: the last call is a checked one
  that returned a negative value, and no checked call before it did.
\<close>

definition library_failure :: "'d trace \<Rightarrow> bool" where
  "library_failure es =
     (es \<noteq> [] \<and> checked (fst (last es)) \<and> snd (last es) < 0 \<and> failed_checks (butlast es) = [])"

text \<open>The file, dataset or attribute a call is about.\<close>

fun subject :: "'d adapter_op \<Rightarrow> string" where
  "subject (Create filename) = filename"
| "subject Close = []"
| "subject (Write_dataset T name len data filetype_id) = name"
| "subject (Write_dataset_nd T name rank dims data filetype_id) = name"
| "subject (Write_attribute T parent name data) = name"

text \<open>
  Every answer logged in a run of calls is the one the library gave at that point.
\<close>

fun library_answers :: "'d h5lib \<Rightarrow> 'd trace \<Rightarrow> 'd trace \<Rightarrow> bool" where
  "library_answers lib tr [] = True"
| "library_answers lib tr ((c, r) # es) =
     (r = respond lib tr c \<and> library_answers lib (tr @ [(c, r)]) es)"

declare library_answers.simps [simp del]

text \<open>
  The names of the library functions, the checked calls among a run of calls by name, and
  the checked calls each method makes when it runs to its end.
\<close>

fun call_name :: "'d h5call \<Rightarrow> string" where
  "call_name (H5Fcreate filename flags fcpl fapl) = ''H5Fcreate''"
| "call_name (H5Fclose h) = ''H5Fclose''"
| "call_name (H5Screate_simple rank dims) = ''H5Screate_simple''"
| "call_name (H5Screate cls) = ''H5Screate''"
| "call_name (H5Pcreate cls) = ''H5Pcreate''"
| "call_name (H5Pset_layout p l) = ''H5Pset_layout''"
| "call_name (H5Pset_chunk p n ch) = ''H5Pset_chunk''"
| "call_name (H5Pset_deflate p lv) = ''H5Pset_deflate''"
| "call_name (H5Dcreate loc name ty sp lcpl dcpl dapl) = ''H5Dcreate''"
| "call_name (H5Dwrite dset mty msp fsp xfer buf) = ''H5Dwrite''"
| "call_name (H5Sclose h) = ''H5Sclose''"
| "call_name (H5Dclose h) = ''H5Dclose''"
| "call_name (H5Pclose h) = ''H5Pclose''"
| "call_name (H5Oopen loc name lapl) = ''H5Oopen''"
| "call_name (H5Acreate loc name ty sp acpl aapl) = ''H5Acreate''"
| "call_name (H5Awrite attr mty buf) = ''H5Awrite''"
| "call_name (H5Aclose h) = ''H5Aclose''"
| "call_name (H5Oclose h) = ''H5Oclose''"

fun checks_of :: "'d adapter_op \<Rightarrow> string list" where
  "checks_of (Create filename) = [''H5Fcreate'']"
| "checks_of Close = []"
| "checks_of (Write_dataset T name len data filetype_id) = [''H5Dcreate'', ''H5Dwrite'']"
| "checks_of (Write_dataset_nd T name rank dims data filetype_id) = [''H5Dcreate'', ''H5Dwrite'']"
| "checks_of (Write_attribute T parent name data) = [''H5Oopen'', ''H5Acreate'', ''H5Awrite'']"

definition checked_calls :: "'d trace \<Rightarrow> string list" where
  "checked_calls es = map call_name (filter checked (map fst es))"

text \<open>
  The two misuses the header tests for (lines 37 and 45), and whether a call ended the
  process.
\<close>

fun misuse :: "'d adapter_op \<Rightarrow> H5OutputFile \<Rightarrow> bool" where
  "misuse (Create filename) s = (file_id s \<ge> 0)"
| "misuse Close s = (file_id s < 0)"
| "misuse op s = False"

fun aborted :: "'d outcome \<Rightarrow> bool" where
  "aborted (Fatal message tr) = True"
| "aborted (Returns tr s) = False"

section \<open>Example libraries\<close>

text \<open>
  A library that hands out fresh positive identifiers (ten plus the number of calls made so
  far) and fails, with \<open>- 1\<close>, exactly the calls selected by \<open>fails\<close>. The data buffer is
  represented by a number.
\<close>

fun is_H5Fclose :: "'d h5call \<Rightarrow> bool" where
  "is_H5Fclose (H5Fclose h) = True"
| "is_H5Fclose c = False"

fun is_H5Dcreate :: "'d h5call \<Rightarrow> bool" where
  "is_H5Dcreate (H5Dcreate loc name ty sp lcpl dcpl dapl) = True"
| "is_H5Dcreate c = False"

definition lib_failing :: "(nat h5call \<Rightarrow> bool) \<Rightarrow> nat h5lib" where
  "lib_failing fails =
     \<lparr>H5P_DEFAULT = 0, H5P_DATASET_CREATE = 100, H5S_ALL = 0, H5F_ACC_TRUNC = 2,
      H5T_NATIVE = (\<lambda>n. case n of
          H5T_NATIVE_FLOAT \<Rightarrow> 201 | H5T_NATIVE_DOUBLE \<Rightarrow> 202 | H5T_NATIVE_INT \<Rightarrow> 203
        | H5T_NATIVE_LONG \<Rightarrow> 204 | H5T_NATIVE_LLONG \<Rightarrow> 205 | H5T_NATIVE_UINT \<Rightarrow> 206
        | H5T_NATIVE_ULONG \<Rightarrow> 207 | H5T_NATIVE_ULLONG \<Rightarrow> 208),
      respond = (\<lambda>tr c. if fails c then - 1 else 10 + int (length tr))\<rparr>"

definition lib_ok :: "nat h5lib" where
  "lib_ok = lib_failing (\<lambda>c. False)"

section \<open>Basic facts\<close>

lemma h5_simp: "h5 lib c tr = (respond lib tr c, tr @ [(c, respond lib tr c)])"
  by (simp add: h5_def Let_def)

lemma h5_trace: "h5 lib c tr = (r, tr1) \<Longrightarrow> tr1 = tr @ [(c, r)]"
  by (auto simp: h5_def Let_def)

lemma calls_made_Returns [simp]: "calls_made tr (Returns (tr @ es) s) = map fst es"
  by (simp add: calls_made_def)

lemma calls_made_Fatal [simp]: "calls_made tr (Fatal m (tr @ es)) = map fst es"
  by (simp add: calls_made_def)

lemmas run_method = Let_def h5_simp io_error_def prod.case append_assoc append_Cons append_Nil

lemma file_protocol_append [simp]:
  "file_protocol (tr @ es) = foldl protocol_step (file_protocol tr) es"
  by (simp add: file_protocol_def)

lemma file_protocol_Nil [simp]: "file_protocol [] = Some None"
  by (simp add: file_protocol_def)

section \<open>The loops of \<open>write_dataset_nd\<close>\<close>

text \<open>
  What the three loops compute, first from any starting index, then for the whole array
  when \<open>dims\<close> has exactly \<open>rank\<close> entries.
\<close>

lemma ex_index_from:
  fixes i rank :: int
  assumes "i < rank"
  shows "(\<exists>j. i \<le> j \<and> j < rank \<and> P j) \<longleftrightarrow> P i \<or> (\<exists>j. i + 1 \<le> j \<and> j < rank \<and> P j)"
proof
  assume "\<exists>j. i \<le> j \<and> j < rank \<and> P j"
  then obtain j where j: "i \<le> j" "j < rank" "P j" by blast
  show "P i \<or> (\<exists>j. i + 1 \<le> j \<and> j < rank \<and> P j)"
  proof (cases "j = i")
    case True
    with j show ?thesis by simp
  next
    case False
    with j have "i + 1 \<le> j" by simp
    with j show ?thesis by blast
  qed
next
  assume "P i \<or> (\<exists>j. i + 1 \<le> j \<and> j < rank \<and> P j)"
  then show "\<exists>j. i \<le> j \<and> j < rank \<and> P j"
  proof
    assume "P i"
    with assms show ?thesis by (intro exI[of _ i]) simp
  next
    assume "\<exists>j. i + 1 \<le> j \<and> j < rank \<and> P j"
    then obtain j where "i + 1 \<le> j" "j < rank" "P j" by blast
    then show ?thesis by (intro exI[of _ j]) simp
  qed
qed

lemma nonzero_size_loop_eq:
  "nonzero_size_loop i rank dims nz =
     (if \<exists>j. i \<le> j \<and> j < rank \<and> dims ! nat j = 0 then 0 else nz)"
proof (induction i rank dims nz rule: nonzero_size_loop.induct)
  case (1 i rank dims nz)
  show ?case
  proof (cases "i < rank")
    case False
    then show ?thesis by (subst nonzero_size_loop.simps) auto
  next
    case True
    have "nonzero_size_loop i rank dims nz =
          nonzero_size_loop (i + 1) rank dims (if dims ! nat i = 0 then 0 else nz)"
      using True by (subst nonzero_size_loop.simps) simp
    also have "\<dots> = (if \<exists>j. i + 1 \<le> j \<and> j < rank \<and> dims ! nat j = 0 then 0
                      else (if dims ! nat i = 0 then 0 else nz))"
      by (rule "1.IH"[OF True])
    also have "\<dots> = (if \<exists>j. i \<le> j \<and> j < rank \<and> dims ! nat j = 0 then 0 else nz)"
      unfolding ex_index_from[OF True, of "\<lambda>j. dims ! nat j = 0"] by auto
    finally show ?thesis .
  qed
qed

lemma large_dataset_loop_eq:
  "large_dataset_loop i rank dims lg =
     (if \<exists>j. i \<le> j \<and> j < rank \<and> CHUNK_SIZE < dims ! nat j then 1 else lg)"
proof (induction i rank dims lg rule: large_dataset_loop.induct)
  case (1 i rank dims lg)
  show ?case
  proof (cases "i < rank")
    case False
    then show ?thesis by (subst large_dataset_loop.simps) auto
  next
    case True
    have "large_dataset_loop i rank dims lg =
          large_dataset_loop (i + 1) rank dims (if CHUNK_SIZE < dims ! nat i then 1 else lg)"
      using True by (subst large_dataset_loop.simps) simp
    also have "\<dots> = (if \<exists>j. i + 1 \<le> j \<and> j < rank \<and> CHUNK_SIZE < dims ! nat j then 1
                      else (if CHUNK_SIZE < dims ! nat i then 1 else lg))"
      by (rule "1.IH"[OF True])
    also have "\<dots> = (if \<exists>j. i \<le> j \<and> j < rank \<and> CHUNK_SIZE < dims ! nat j then 1 else lg)"
      unfolding ex_index_from[OF True, of "\<lambda>j. CHUNK_SIZE < dims ! nat j"] by auto
    finally show ?thesis .
  qed
qed

lemma chunks_loop_length: "length (chunks_loop i rank dims ch) = length ch"
proof (induction i rank dims ch rule: chunks_loop.induct)
  case (1 i rank dims ch)
  show ?case
  proof (cases "i < rank")
    case False
    then show ?thesis by (subst chunks_loop.simps) simp
  next
    case True
    then show ?thesis using "1.IH"[OF True] by (subst chunks_loop.simps) simp
  qed
qed

lemma chunks_loop_nth:
  "0 \<le> i \<Longrightarrow> k < length ch \<Longrightarrow>
   chunks_loop i rank dims ch ! k =
     (if i \<le> int k \<and> int k < rank then min CHUNK_SIZE (dims ! k) else ch ! k)"
proof (induction i rank dims ch rule: chunks_loop.induct)
  case (1 i rank dims ch)
  show ?case
  proof (cases "i < rank")
    case False
    then show ?thesis by (subst chunks_loop.simps) auto
  next
    case True
    let ?ch = "ch[nat i := min CHUNK_SIZE (dims ! nat i)]"
    have k: "k < length ?ch" using "1.prems" by simp
    have i1: "0 \<le> i + 1" using "1.prems" by simp
    have "chunks_loop i rank dims ch ! k = chunks_loop (i + 1) rank dims ?ch ! k"
      using True by (subst chunks_loop.simps) simp
    also have "\<dots> = (if i + 1 \<le> int k \<and> int k < rank then min CHUNK_SIZE (dims ! k) else ?ch ! k)"
      by (rule "1.IH"[OF True i1 k])
    also have "\<dots> = (if i \<le> int k \<and> int k < rank then min CHUNK_SIZE (dims ! k) else ch ! k)"
    proof (cases "int k = i")
      case True
      then have "nat i = k" by simp
      with True \<open>i < rank\<close> "1.prems" show ?thesis by simp
    next
      case False
      then have "nat i \<noteq> k" using "1.prems" by auto
      with False show ?thesis by auto
    qed
    finally show ?thesis .
  qed
qed

lemma nonzero_size_whole:
  assumes "rank = int (length dims)"
  shows "nonzero_size_loop 0 rank dims 1 \<noteq> 0 \<longleftrightarrow> 0 \<notin> set dims"
proof -
  have "(\<exists>j. 0 \<le> j \<and> j < rank \<and> dims ! nat j = 0) \<longleftrightarrow> 0 \<in> set dims"
  proof
    assume "\<exists>j. 0 \<le> j \<and> j < rank \<and> dims ! nat j = 0"
    then obtain j where "0 \<le> j" "j < rank" "dims ! nat j = 0" by blast
    with assms have "nat j < length dims" "dims ! nat j = 0" by auto
    then show "0 \<in> set dims" by (metis nth_mem)
  next
    assume "0 \<in> set dims"
    then obtain k where "k < length dims" "dims ! k = 0" by (auto simp: in_set_conv_nth)
    with assms show "\<exists>j. 0 \<le> j \<and> j < rank \<and> dims ! nat j = 0"
      by (intro exI[of _ "int k"]) simp
  qed
  then show ?thesis by (simp add: nonzero_size_loop_eq)
qed

lemma large_dataset_whole:
  assumes "rank = int (length dims)"
  shows "large_dataset_loop 0 rank dims 0 \<noteq> 0 \<longleftrightarrow> list_ex (\<lambda>d. CHUNK_SIZE < d) dims"
proof -
  have "(\<exists>j. 0 \<le> j \<and> j < rank \<and> CHUNK_SIZE < dims ! nat j) \<longleftrightarrow> (\<exists>d\<in>set dims. CHUNK_SIZE < d)"
  proof
    assume "\<exists>j. 0 \<le> j \<and> j < rank \<and> CHUNK_SIZE < dims ! nat j"
    then obtain j where "0 \<le> j" "j < rank" "CHUNK_SIZE < dims ! nat j" by blast
    with assms have "nat j < length dims" "CHUNK_SIZE < dims ! nat j" by auto
    then show "\<exists>d\<in>set dims. CHUNK_SIZE < d" by (metis nth_mem)
  next
    assume "\<exists>d\<in>set dims. CHUNK_SIZE < d"
    then obtain k where "k < length dims" "CHUNK_SIZE < dims ! k" by (auto simp: in_set_conv_nth)
    with assms show "\<exists>j. 0 \<le> j \<and> j < rank \<and> CHUNK_SIZE < dims ! nat j"
      by (intro exI[of _ "int k"]) simp
  qed
  then show ?thesis by (simp add: large_dataset_loop_eq list_ex_iff)
qed

lemma chunks_whole:
  assumes "rank = int (length dims)"
  shows "chunks_loop 0 rank dims (replicate (nat rank) 0) = map (min CHUNK_SIZE) dims"
proof (rule nth_equalityI)
  show "length (chunks_loop 0 rank dims (replicate (nat rank) 0)) = length (map (min CHUNK_SIZE) dims)"
    using assms by (simp add: chunks_loop_length)
next
  fix k
  assume "k < length (chunks_loop 0 rank dims (replicate (nat rank) 0))"
  then have k: "k < length dims" using assms by (simp add: chunks_loop_length)
  then have "k < length (replicate (nat rank) (0::hsize_t))" using assms by simp
  then have "chunks_loop 0 rank dims (replicate (nat rank) 0) ! k =
        (if 0 \<le> int k \<and> int k < rank then min CHUNK_SIZE (dims ! k) else replicate (nat rank) 0 ! k)"
    by (intro chunks_loop_nth) simp_all
  with k assms show "chunks_loop 0 rank dims (replicate (nat rank) 0) ! k = map (min CHUNK_SIZE) dims ! k"
    by simp
qed

section \<open>The one-dimensional form\<close>

text \<open>
  C5. For every name, length, buffer and storage type (the default \<open>- 1\<close> included),
  \<open>write_dataset\<close> does exactly what \<open>write_dataset_nd\<close> does with rank 1 and the single
  extent \<open>len\<close>: the same library calls, the same outcome.
\<close>

theorem write_dataset_is_rank_one_nd:
  "write_dataset lib T name len data filetype_id tr s =
   write_dataset_nd lib T name 1 [len] data filetype_id tr s"
  by (simp add: write_dataset_def)

section \<open>Creating and closing the file\<close>

text \<open>
  C3. \<open>create\<close> with a handle held is fatal and makes no library call; \<open>close\<close> with no
  handle held is fatal and makes no library call; \<open>create\<close> with no handle held calls
  \<^verbatim>\<open>H5Fcreate\<close> and, when the library returns a handle (a non-negative value), returns
  with that handle stored; \<open>close\<close> with a handle held calls \<^verbatim>\<open>H5Fclose\<close> on it and
  returns with \<open>file_id = - 1\<close>.
\<close>

theorem create_close_state_checks:
  "(0 \<le> file_id s \<longrightarrow>
      create lib filename tr s = Fatal ''Attempted to create file when already open!'' tr)
 \<and> (file_id s < 0 \<longrightarrow>
      close lib tr s = Fatal ''Attempted to close file which is not open!'' tr)
 \<and> (file_id s < 0 \<and>
     0 \<le> respond lib tr (H5Fcreate filename (H5F_ACC_TRUNC lib) (H5P_DEFAULT lib) (H5P_DEFAULT lib)) \<longrightarrow>
      create lib filename tr s =
        Returns
          (tr @ [(H5Fcreate filename (H5F_ACC_TRUNC lib) (H5P_DEFAULT lib) (H5P_DEFAULT lib),
                  respond lib tr
                    (H5Fcreate filename (H5F_ACC_TRUNC lib) (H5P_DEFAULT lib) (H5P_DEFAULT lib)))])
          (s\<lparr>file_id :=
               respond lib tr
                 (H5Fcreate filename (H5F_ACC_TRUNC lib) (H5P_DEFAULT lib) (H5P_DEFAULT lib))\<rparr>))
 \<and> (0 \<le> file_id s \<longrightarrow>
      close lib tr s =
        Returns (tr @ [(H5Fclose (file_id s), respond lib tr (H5Fclose (file_id s)))])
                (s\<lparr>file_id := - 1\<rparr>))"
  by (simp add: create_def close_def h5_simp io_error_def)

theorem create_close_state_checks_witness:
  "create lib_ok ''out.h5'' [] \<lparr>file_id = 10\<rparr> =
     Fatal ''Attempted to create file when already open!'' []
 \<and> close lib_ok [] \<lparr>file_id = - 1\<rparr> = Fatal ''Attempted to close file which is not open!'' []
 \<and> create lib_ok ''out.h5'' [] \<lparr>file_id = - 1\<rparr> =
     Returns [(H5Fcreate ''out.h5'' 2 0 0, 10)] \<lparr>file_id = 10\<rparr>
 \<and> close lib_ok [(H5Fcreate ''out.h5'' 2 0 0, 10)] \<lparr>file_id = 10\<rparr> =
     Returns [(H5Fcreate ''out.h5'' 2 0 0, 10), (H5Fclose 10, 11)] \<lparr>file_id = - 1\<rparr>"
  using create_close_state_checks[of "\<lparr>file_id = 10\<rparr>" lib_ok "''out.h5''" "[]"]
        create_close_state_checks[of "\<lparr>file_id = - 1\<rparr>" lib_ok "''out.h5''" "[]"]
        create_close_state_checks[of "\<lparr>file_id = 10\<rparr>" lib_ok "''out.h5''"
          "[(H5Fcreate ''out.h5'' 2 0 0, 10)]"]
  by (simp add: lib_ok_def lib_failing_def)

text \<open>
  C9. \<open>close\<close> never looks at what \<^verbatim>\<open>H5Fclose\<close> returned: with a handle held, whatever
  value \<open>r\<close> the library answers (a negative one included), \<open>close\<close> returns normally
  with \<open>file_id = - 1\<close>.
\<close>

theorem close_ignores_library_result:
  "0 \<le> file_id s \<Longrightarrow> respond lib tr (H5Fclose (file_id s)) = r \<Longrightarrow>
   close lib tr s = Returns (tr @ [(H5Fclose (file_id s), r)]) (s\<lparr>file_id := - 1\<rparr>)"
  by (auto simp add: close_def h5_simp)

theorem close_ignores_library_result_witness:
  "close (lib_failing is_H5Fclose) [] \<lparr>file_id = 10\<rparr> =
     Returns [(H5Fclose 10, - 1)] \<lparr>file_id = - 1\<rparr>"
  using close_ignores_library_result[of "\<lparr>file_id = 10\<rparr>" "lib_failing is_H5Fclose" "[]" "- 1"]
  by (simp add: lib_failing_def)

section \<open>The writing methods leave the object alone\<close>

lemma write_dataset_nd_state:
  "write_dataset_nd lib T name rank dims data ft tr s = Returns tr' s' \<Longrightarrow> s' = s"
  unfolding write_dataset_nd_def Let_def io_error_def
  by (auto split: prod.splits if_splits)

lemma write_attribute_state:
  "write_attribute lib T parent name data tr s = Returns tr' s' \<Longrightarrow> s' = s"
  unfolding write_attribute_def Let_def io_error_def
  by (auto split: prod.splits if_splits)

text \<open>
  C10. Whenever \<open>write_dataset_nd\<close>, \<open>write_dataset\<close> or \<open>write_attribute\<close> returns, the
  object is what it was before the call; in particular \<open>file_id\<close> is unchanged.
\<close>

theorem writes_leave_file_handle:
  "(write_dataset_nd lib T name rank dims data ft tr s = Returns tra sa \<longrightarrow>
      file_id sa = file_id s \<and> sa = s)
 \<and> (write_dataset lib T name len data ft tr s = Returns trb sb \<longrightarrow>
      file_id sb = file_id s \<and> sb = s)
 \<and> (write_attribute lib T parent aname v tr s = Returns trc sc \<longrightarrow>
      file_id sc = file_id s \<and> sc = s)"
  by (auto simp: write_dataset_def dest: write_dataset_nd_state write_attribute_state)

theorem writes_leave_file_handle_witness:
  "write_dataset_nd lib_ok C_int ''/ids'' 1 [4] 0 (- 1) [] \<lparr>file_id = 1\<rparr> =
     Returns
       [(H5Screate_simple 1 [4], 10), (H5Pcreate 100, 11), (H5Dcreate 1 ''/ids'' 203 10 0 0 0, 12),
        (H5Dwrite 12 203 10 0 0 0, 13), (H5Sclose 10, 14), (H5Dclose 12, 15), (H5Pclose 11, 16)]
       \<lparr>file_id = 1\<rparr>
 \<and> write_attribute lib_ok C_double ''/positions'' ''time'' 0 [] \<lparr>file_id = 1\<rparr> =
     Returns
       [(H5Oopen 1 ''/positions'' 0, 10), (H5Screate H5S_SCALAR, 11),
        (H5Acreate 1 ''time'' 202 11 0 0, 12), (H5Awrite 12 202 0, 13),
        (H5Aclose 12, 14), (H5Sclose 11, 15), (H5Oclose 10, 16)]
       \<lparr>file_id = 1\<rparr>
 \<and> file_id \<lparr>file_id = 1\<rparr> = 1"
proof -
  have r: "(1::int) = int (length [4::hsize_t])" by simp
  have a: "nonzero_size_loop 0 1 [4] 1 \<noteq> 0" "\<not> large_dataset_loop 0 1 [4] 0 \<noteq> 0"
    by (simp_all add: nonzero_size_whole[OF r] large_dataset_whole[OF r] CHUNK_SIZE_def)
  have d: "write_dataset_nd lib_ok C_int ''/ids'' 1 [4] 0 (- 1) [] \<lparr>file_id = 1\<rparr> =
     Returns
       [(H5Screate_simple 1 [4], 10), (H5Pcreate 100, 11), (H5Dcreate 1 ''/ids'' 203 10 0 0 0, 12),
        (H5Dwrite 12 203 10 0 0 0, 13), (H5Sclose 10, 14), (H5Dclose 12, 15), (H5Pclose 11, 16)]
       \<lparr>file_id = 1\<rparr>"
    using a by (simp add: write_dataset_nd_def lib_ok_def lib_failing_def h5_simp)
  have w: "write_attribute lib_ok C_double ''/positions'' ''time'' 0 [] \<lparr>file_id = 1\<rparr> =
     Returns
       [(H5Oopen 1 ''/positions'' 0, 10), (H5Screate H5S_SCALAR, 11),
        (H5Acreate 1 ''time'' 202 11 0 0, 12), (H5Awrite 12 202 0, 13),
        (H5Aclose 12, 14), (H5Sclose 11, 15), (H5Oclose 10, 16)]
       \<lparr>file_id = 1\<rparr>"
    by (simp add: write_attribute_def lib_ok_def lib_failing_def h5_simp)
  show ?thesis
    using writes_leave_file_handle[where lib = lib_ok and s = "\<lparr>file_id = 1\<rparr>" and tr = "[]"
            and T = C_int and name = "''/ids''" and rank = 1 and dims = "[4]" and data = 0
            and ft = "- 1" and sa = "\<lparr>file_id = 1\<rparr>"
            and tra = "[(H5Screate_simple 1 [4], 10), (H5Pcreate 100, 11),
                        (H5Dcreate 1 ''/ids'' 203 10 0 0 0, 12), (H5Dwrite 12 203 10 0 0 0, 13),
                        (H5Sclose 10, 14), (H5Dclose 12, 15), (H5Pclose 11, 16)]"]
          writes_leave_file_handle[where lib = lib_ok and s = "\<lparr>file_id = 1\<rparr>" and tr = "[]"
            and T = C_double and parent = "''/positions''" and aname = "''time''" and v = 0
            and sc = "\<lparr>file_id = 1\<rparr>"
            and trc = "[(H5Oopen 1 ''/positions'' 0, 10), (H5Screate H5S_SCALAR, 11),
                        (H5Acreate 1 ''time'' 202 11 0 0, 12), (H5Awrite 12 202 0, 13),
                        (H5Aclose 12, 14), (H5Sclose 11, 15), (H5Oclose 10, 16)]"]
          d w
    by simp
qed

section \<open>The destructor and the life of a handle\<close>

lemma create_tracks:
  assumes "file_protocol tr = Some (holds s)" and "create lib filename tr s = Returns tr' s'"
  shows "file_protocol tr' = Some (holds s')"
  using assms
  by (auto simp: create_def h5_simp io_error_def holds_def split: if_splits)

lemma close_tracks:
  assumes "file_protocol tr = Some (holds s)" and "close lib tr s = Returns tr' s'"
  shows "file_protocol tr' = Some (holds s')"
  using assms
  by (auto simp: close_def h5_simp io_error_def holds_def split: if_splits)

lemma write_dataset_nd_protocol:
  assumes "write_dataset_nd lib T name rank dims data ft tr s = Returns tr' s'"
  shows "file_protocol tr' = file_protocol tr"
  using assms unfolding write_dataset_nd_def Let_def io_error_def
  by (auto split: prod.splits if_splits dest!: h5_trace)

lemma write_attribute_protocol:
  assumes "write_attribute lib T parent name data tr s = Returns tr' s'"
  shows "file_protocol tr' = file_protocol tr"
  using assms unfolding write_attribute_def Let_def io_error_def
  by (auto split: prod.splits if_splits dest!: h5_trace)

lemma exec_tracks:
  assumes "file_protocol tr = Some (holds s)" and "exec lib op tr s = Returns tr' s'"
  shows "file_protocol tr' = Some (holds s')"
proof (cases op)
  case (Create filename)
  with assms(2) have r: "create lib filename tr s = Returns tr' s'"
    by simp
  show ?thesis by (rule create_tracks[OF assms(1) r])
next
  case Close
  with assms(2) have r: "close lib tr s = Returns tr' s'"
    by simp
  show ?thesis by (rule close_tracks[OF assms(1) r])
next
  case (Write_dataset T name len data ft)
  with assms(2) have r: "write_dataset_nd lib T name 1 [len] data ft tr s = Returns tr' s'"
    by (simp add: write_dataset_def)
  show ?thesis
    using write_dataset_nd_protocol[OF r] write_dataset_nd_state[OF r] assms(1) by simp
next
  case (Write_dataset_nd T name rank dims data ft)
  with assms(2) have r: "write_dataset_nd lib T name rank dims data ft tr s = Returns tr' s'"
    by simp
  show ?thesis
    using write_dataset_nd_protocol[OF r] write_dataset_nd_state[OF r] assms(1) by simp
next
  case (Write_attribute T parent name data)
  with assms(2) have r: "write_attribute lib T parent name data tr s = Returns tr' s'"
    by simp
  show ?thesis
    using write_attribute_protocol[OF r] write_attribute_state[OF r] assms(1) by simp
qed

lemma run_ops_tracks:
  "file_protocol tr = Some (holds s) \<Longrightarrow> run_ops lib ops tr s = Returns tr' s' \<Longrightarrow>
   file_protocol tr' = Some (holds s')"
proof (induction ops arbitrary: tr s)
  case Nil
  then show ?case by simp
next
  case (Cons op ops)
  from Cons.prems(2) obtain tr1 s1 where
    step: "exec lib op tr s = Returns tr1 s1" and rest: "run_ops lib ops tr1 s1 = Returns tr' s'"
    by (auto split: outcome.splits)
  from exec_tracks[OF Cons.prems(1) step] have "file_protocol tr1 = Some (holds s1)" .
  from Cons.IH[OF this rest] show ?case .
qed

lemma lifetime_releases:
  assumes "lifetime lib ops = Returns tr' s'"
  shows "file_protocol tr' = Some None \<and> file_id s' < 0"
proof -
  from assms obtain tr s where
    run: "run_ops lib ops [] constructor = Returns tr s" and d: "destructor lib tr s = Returns tr' s'"
    by (auto simp: lifetime_def split: outcome.splits)
  have "file_protocol ([] :: 'a trace) = Some (holds constructor)"
    by (simp add: holds_def constructor_def)
  from run_ops_tracks[OF this run] have inv: "file_protocol tr = Some (holds s)" .
  show ?thesis
  proof (cases "0 \<le> file_id s")
    case True
    with d have c: "close lib tr s = Returns tr' s'" by (simp add: destructor_def)
    from close_tracks[OF inv c] have "file_protocol tr' = Some (holds s')" .
    moreover from c True have "file_id s' < 0"
      by (auto simp: close_def h5_simp)
    ultimately show ?thesis by (simp add: holds_def)
  next
    case False
    with d have "tr' = tr" "s' = s" by (simp_all add: destructor_def)
    then show ?thesis using inv False by (simp add: holds_def)
  qed
qed

text \<open>
  C6. When the object is destroyed with a handle held, the destructor does what \<open>close\<close>
  does: \<^verbatim>\<open>H5Fclose\<close> is called on that handle and \<open>file_id\<close> becomes \<open>- 1\<close>. With no
  handle held it makes no call at all. Over any life of the object that reaches the
  destructor (constructor, any sequence of method calls none of which aborts, destructor),
  the file calls obey the discipline of \<open>file_protocol\<close> and end with no handle out:
  every handle obtained from \<^verbatim>\<open>H5Fcreate\<close> is passed to \<^verbatim>\<open>H5Fclose\<close> exactly once.
\<close>

theorem destructor_releases_held_handle:
  "(0 \<le> file_id s \<longrightarrow>
      destructor lib tr s = close lib tr s
    \<and> destructor lib tr s =
        Returns (tr @ [(H5Fclose (file_id s), respond lib tr (H5Fclose (file_id s)))])
                (s\<lparr>file_id := - 1\<rparr>))
 \<and> (file_id s < 0 \<longrightarrow> destructor lib tr s = Returns tr s)
 \<and> (lifetime lib ops = Returns tr' s' \<longrightarrow> file_protocol tr' = Some None \<and> file_id s' < 0)"
  using lifetime_releases[of lib ops tr' s']
  by (simp add: destructor_def close_def h5_simp)

theorem destructor_releases_held_handle_witness:
  "destructor lib_ok [] \<lparr>file_id = 10\<rparr> = Returns [(H5Fclose 10, 10)] \<lparr>file_id = - 1\<rparr>
 \<and> destructor lib_ok [] \<lparr>file_id = - 1\<rparr> = Returns [] \<lparr>file_id = - 1\<rparr>
 \<and> lifetime lib_ok [Create ''out.h5''] =
       Returns [(H5Fcreate ''out.h5'' 2 0 0, 10), (H5Fclose 10, 11)] \<lparr>file_id = - 1\<rparr>
 \<and> file_protocol [(H5Fcreate ''out.h5'' 2 0 0, 10), (H5Fclose 10, 11 :: int) :: nat h5call \<times> int] = Some None"
  using destructor_releases_held_handle[of "\<lparr>file_id = 10\<rparr>" lib_ok "[]" "[Create ''out.h5'']"
          "[(H5Fcreate ''out.h5'' 2 0 0, 10), (H5Fclose 10, 11)]" "\<lparr>file_id = - 1\<rparr>"]
        destructor_releases_held_handle[of "\<lparr>file_id = - 1\<rparr>" lib_ok "[]" "[]" "[]" "\<lparr>file_id = - 1\<rparr>"]
  by (simp add: lib_ok_def lib_failing_def lifetime_def constructor_def create_def
      destructor_def close_def h5_simp)

section \<open>The type lookup\<close>

lemma c_type_UNIV:
  "(UNIV :: c_type set) =
     {C_float, C_double, C_int, C_long, C_long_long, C_unsigned_int, C_unsigned_long,
      C_unsigned_long_long}"
proof -
  have "T \<in> {C_float, C_double, C_int, C_long, C_long_long, C_unsigned_int, C_unsigned_long,
      C_unsigned_long_long}" for T
    by (cases T) simp_all
  then show ?thesis by blast
qed

lemmas resolve_defs = resolve_hdf5_type_def select_overload_def overloads_def conversion_rank_def

text \<open>
  C7, as the code has it. The lookup \<open>hdf5_type\<close> has eight overloads, not seven: float,
  double, int, long, long long and the unsigned forms of the last three. Each maps to the
  native identifier of the same kind, and the eight identifiers are different. An element
  type with an overload resolves to it. Element types without one are not all refused:
  bool, char, signed char, unsigned char, short and unsigned short are promoted, select
  the \<^verbatim>\<open>int\<close> overload and get \<^verbatim>\<open>H5T_NATIVE_INT\<close>; long double is refused, the call
  being ambiguous.
\<close>

theorem hdf5_type_eight_kinds:
  "hdf5_type C_float = H5T_NATIVE_FLOAT
 \<and> hdf5_type C_double = H5T_NATIVE_DOUBLE
 \<and> hdf5_type C_int = H5T_NATIVE_INT
 \<and> hdf5_type C_long = H5T_NATIVE_LONG
 \<and> hdf5_type C_long_long = H5T_NATIVE_LLONG
 \<and> hdf5_type C_unsigned_int = H5T_NATIVE_UINT
 \<and> hdf5_type C_unsigned_long = H5T_NATIVE_ULONG
 \<and> hdf5_type C_unsigned_long_long = H5T_NATIVE_ULLONG
 \<and> card (range hdf5_type) = 8
 \<and> map resolve_hdf5_type
       [E_float, E_double, E_int, E_long, E_long_long, E_unsigned_int, E_unsigned_long,
        E_unsigned_long_long] =
     [Some H5T_NATIVE_FLOAT, Some H5T_NATIVE_DOUBLE, Some H5T_NATIVE_INT, Some H5T_NATIVE_LONG,
      Some H5T_NATIVE_LLONG, Some H5T_NATIVE_UINT, Some H5T_NATIVE_ULONG, Some H5T_NATIVE_ULLONG]
 \<and> map resolve_hdf5_type
       [E_bool, E_char, E_signed_char, E_unsigned_char, E_short, E_unsigned_short] =
     [Some H5T_NATIVE_INT, Some H5T_NATIVE_INT, Some H5T_NATIVE_INT, Some H5T_NATIVE_INT,
      Some H5T_NATIVE_INT, Some H5T_NATIVE_INT]
 \<and> resolve_hdf5_type E_long_double = None"
proof -
  have "range hdf5_type =
      {H5T_NATIVE_FLOAT, H5T_NATIVE_DOUBLE, H5T_NATIVE_INT, H5T_NATIVE_LONG, H5T_NATIVE_LLONG,
       H5T_NATIVE_UINT, H5T_NATIVE_ULONG, H5T_NATIVE_ULLONG}"
    unfolding c_type_UNIV by simp
  then have "card (range hdf5_type) = 8" by simp
  then show ?thesis by (simp add: resolve_defs)
qed

text \<open>
  The claim as stated fails twice: the eight element types with an overload are mapped to
  eight different identifiers, not seven; and \<^verbatim>\<open>short\<close>, which is none of them, is
  accepted.
\<close>

theorem seven_kinds_counterexample:
  "card (hdf5_type ` {C_float, C_double, C_int, C_long, C_long_long, C_unsigned_int,
                      C_unsigned_long, C_unsigned_long_long}) \<noteq> 7
 \<and> resolve_hdf5_type E_short = Some H5T_NATIVE_INT"
  by (simp add: resolve_defs)

section \<open>Chunking and compression\<close>

lemma dcpl_is_default:
  "List.map_filter dataset_creation_plist
     (calls_made tr (write_dataset_nd lib T name rank dims data ft tr s)) = [H5P_DEFAULT lib]"
  unfolding write_dataset_nd_def run_method
  apply (simp only: if_distrib[of "calls_made tr"]
      if_distrib[of "List.map_filter dataset_creation_plist"]
      calls_made_Returns calls_made_Fatal cong: if_cong)
  apply (simp add: List.map_filter_simps)
  done

lemma configuring_calls:
  assumes "rank = int (length dims)"
  shows "filter configures_storage
           (calls_made tr (write_dataset_nd lib T name rank dims data ft tr s)) =
         (if 0 \<notin> set dims \<and> list_ex (\<lambda>d. CHUNK_SIZE < d) dims
          then
            let prop_id =
                  respond lib
                    (tr @ [(H5Screate_simple rank dims, respond lib tr (H5Screate_simple rank dims))])
                    (H5Pcreate (H5P_DATASET_CREATE lib))
            in [H5Pset_layout prop_id H5D_CHUNKED,
                H5Pset_chunk prop_id rank (map (min CHUNK_SIZE) dims),
                H5Pset_deflate prop_id DEFLATE]
          else [])"
proof (cases "0 \<notin> set dims \<and> list_ex (\<lambda>d. CHUNK_SIZE < d) dims")
  case True
  then have c: "(nonzero_size_loop 0 rank dims 1 \<noteq> 0 \<and> large_dataset_loop 0 rank dims 0 \<noteq> 0) = True"
    using nonzero_size_whole[OF assms] large_dataset_whole[OF assms] by simp
  show ?thesis
    unfolding write_dataset_nd_def run_method c chunks_whole[OF assms]
    apply (simp only: if_distrib[of "calls_made tr"] if_distrib[of "filter configures_storage"]
        calls_made_Returns calls_made_Fatal simp_thms if_True cong: if_cong)
    using True apply simp
    done
next
  case False
  then have c: "(nonzero_size_loop 0 rank dims 1 \<noteq> 0 \<and> large_dataset_loop 0 rank dims 0 \<noteq> 0) = False"
    using nonzero_size_whole[OF assms] large_dataset_whole[OF assms] by simp
  show ?thesis
    unfolding write_dataset_nd_def run_method c
    apply (simp only: if_distrib[of "calls_made tr"] if_distrib[of "filter configures_storage"]
        calls_made_Returns calls_made_Fatal simp_thms if_False cong: if_cong)
    using False apply simp
    done
qed

text \<open>
  What \<open>write_dataset_nd\<close> does with the property list it creates, for an extents array of
  \<open>rank\<close> entries: it gives the list a chunked layout, chunk extents \<open>min 8192 d\<close> for each
  extent \<open>d\<close>, and deflate level 6, exactly when no extent is zero and some extent exceeds
  8192; otherwise it leaves the list as created.
\<close>

theorem property_list_configured_iff:
  assumes "rank = int (length dims)"
  shows "filter configures_storage
           (calls_made tr (write_dataset_nd lib T name rank dims data ft tr s)) =
         (if 0 \<notin> set dims \<and> list_ex (\<lambda>d. 8192 < d) dims
          then
            let prop_id =
                  respond lib
                    (tr @ [(H5Screate_simple rank dims, respond lib tr (H5Screate_simple rank dims))])
                    (H5Pcreate (H5P_DATASET_CREATE lib))
            in [H5Pset_layout prop_id H5D_CHUNKED,
                H5Pset_chunk prop_id rank (map (min 8192) dims),
                H5Pset_deflate prop_id 6]
          else [])"
  using configuring_calls[OF assms, of tr lib T name data ft s]
  by (simp add: CHUNK_SIZE_def DEFLATE_def)

theorem property_list_configured_iff_witness:
  "(2::int) = int (length [3, 20000 :: hsize_t])
 \<and> filter configures_storage
      (calls_made [] (write_dataset_nd lib_ok C_double ''/positions'' 2 [3, 20000] 0 (- 1) []
         \<lparr>file_id = 1\<rparr>)) =
    [H5Pset_layout 11 H5D_CHUNKED, H5Pset_chunk 11 2 [3, 8192], H5Pset_deflate 11 6]"
  using property_list_configured_iff[of 2 "[3, 20000]" "[]" lib_ok C_double "''/positions''" 0 "- 1"
          "\<lparr>file_id = 1\<rparr>"]
  by (simp add: lib_ok_def lib_failing_def)

text \<open>
  The dataset itself is always created with \<^verbatim>\<open>H5P_DEFAULT\<close> as its dataset-creation
  property list, whatever the extents: every call of \<open>write_dataset_nd\<close> makes exactly one
  \<^verbatim>\<open>H5Dcreate\<close> call, and its sixth argument is \<^verbatim>\<open>H5P_DEFAULT\<close>.
\<close>

theorem dataset_created_with_default_plist:
  "List.map_filter dataset_creation_plist
     (calls_made tr (write_dataset_nd lib T name rank dims data ft tr s)) = [H5P_DEFAULT lib]"
  by (rule dcpl_is_default)

text \<open>
  C1, at the extents \<open>[3, 20000]\<close>: no extent is zero and 20000 is above 8192. The property list 11 is given the chunked layout,
  the chunk extents \<open>[3, 8192]\<close> and deflate level 6, and is closed at the end; the
  dataset is created with property list 0, which is \<^verbatim>\<open>H5P_DEFAULT\<close>, in all three
  property-list positions. The dataset does not get the chunking the claim states.
\<close>

theorem large_dataset_created_unchunked:
  "list_all (\<lambda>d. d \<noteq> 0) [3, 20000 :: hsize_t]
 \<and> list_ex (\<lambda>d. 8192 < d) [3, 20000 :: hsize_t]
 \<and> write_dataset_nd lib_ok C_double ''/positions'' 2 [3, 20000] 0 (- 1) [] \<lparr>file_id = 1\<rparr> =
     Returns
       [(H5Screate_simple 2 [3, 20000], 10), (H5Pcreate 100, 11),
        (H5Pset_layout 11 H5D_CHUNKED, 12), (H5Pset_chunk 11 2 [3, 8192], 13),
        (H5Pset_deflate 11 6, 14), (H5Dcreate 1 ''/positions'' 202 10 0 0 0, 15),
        (H5Dwrite 15 202 10 0 0 0, 16), (H5Sclose 10, 17), (H5Dclose 15, 18),
        (H5Pclose 11, 19)]
       \<lparr>file_id = 1\<rparr>
 \<and> List.map_filter dataset_creation_plist
      (calls_made []
         (write_dataset_nd lib_ok C_double ''/positions'' 2 [3, 20000] 0 (- 1) [] \<lparr>file_id = 1\<rparr>)) =
     [H5P_DEFAULT lib_ok]
 \<and> H5P_DEFAULT lib_ok \<noteq> 11"
proof -
  have r: "(2::int) = int (length [3::hsize_t, 20000])" by simp
  have a: "nonzero_size_loop 0 2 [3, 20000] 1 \<noteq> 0" "large_dataset_loop 0 2 [3, 20000] 0 \<noteq> 0"
    by (simp_all add: nonzero_size_whole[OF r] large_dataset_whole[OF r] CHUNK_SIZE_def)
  have c: "chunks_loop 0 2 [3, 20000] (replicate 2 0) = [3, 8192]"
    using chunks_whole[OF r] by (simp add: CHUNK_SIZE_def)
  have e: "write_dataset_nd lib_ok C_double ''/positions'' 2 [3, 20000] 0 (- 1) [] \<lparr>file_id = 1\<rparr> =
     Returns
       [(H5Screate_simple 2 [3, 20000], 10), (H5Pcreate 100, 11),
        (H5Pset_layout 11 H5D_CHUNKED, 12), (H5Pset_chunk 11 2 [3, 8192], 13),
        (H5Pset_deflate 11 6, 14), (H5Dcreate 1 ''/positions'' 202 10 0 0 0, 15),
        (H5Dwrite 15 202 10 0 0 0, 16), (H5Sclose 10, 17), (H5Dclose 15, 18),
        (H5Pclose 11, 19)]
       \<lparr>file_id = 1\<rparr>"
    by (simp add: write_dataset_nd_def lib_ok_def lib_failing_def h5_simp a c DEFLATE_def)
  show ?thesis
    unfolding e
    by (simp add: calls_made_def lib_ok_def lib_failing_def List.map_filter_simps)
qed

text \<open>
  C4. When the extents array has \<open>rank\<close> entries and one of them is zero, no call of
  \<open>write_dataset_nd\<close> configures any property list (no layout, chunk or deflate call is
  made), and the dataset is created with \<^verbatim>\<open>H5P_DEFAULT\<close>: it gets neither chunked
  storage nor compression, however large the other extents are.
\<close>

theorem zero_extent_never_chunked:
  assumes "rank = int (length dims)" and "0 \<in> set dims"
  shows "filter configures_storage
           (calls_made tr (write_dataset_nd lib T name rank dims data ft tr s)) = []
       \<and> List.map_filter dataset_creation_plist
           (calls_made tr (write_dataset_nd lib T name rank dims data ft tr s)) = [H5P_DEFAULT lib]"
  using configuring_calls[OF assms(1), of tr lib T name data ft s] assms(2)
  by (simp add: dcpl_is_default)

theorem zero_extent_never_chunked_witness:
  "(2::int) = int (length [0, 20000 :: hsize_t])
 \<and> (0::hsize_t) \<in> set [0, 20000]
 \<and> filter configures_storage
      (calls_made [] (write_dataset_nd lib_ok C_double ''/positions'' 2 [0, 20000] 0 (- 1) []
         \<lparr>file_id = 1\<rparr>)) = []
 \<and> List.map_filter dataset_creation_plist
      (calls_made [] (write_dataset_nd lib_ok C_double ''/positions'' 2 [0, 20000] 0 (- 1) []
         \<lparr>file_id = 1\<rparr>)) = [0]"
  using zero_extent_never_chunked[of 2 "[0, 20000]" "[]" lib_ok C_double "''/positions''" 0 "- 1"
          "\<lparr>file_id = 1\<rparr>"]
  by (simp add: lib_ok_def lib_failing_def)

section \<open>Attributes\<close>

lemma attribute_location_is_file:
  "List.map_filter attribute_location
     (calls_made tr (write_attribute lib T parent name data tr s)) =
     (if respond lib tr (H5Oopen (file_id s) parent (H5P_DEFAULT lib)) < 0 then [] else [file_id s])"
  unfolding write_attribute_def run_method
  apply (simp only: if_distrib[of "calls_made tr"]
      if_distrib[of "List.map_filter attribute_location"]
      calls_made_Returns calls_made_Fatal cong: if_cong)
  apply (simp add: List.map_filter_simps)
  done

text \<open>
  Whenever \<open>write_attribute\<close> gets as far as creating the attribute, it creates it on
  \<open>file_id\<close>: the first argument of its one \<^verbatim>\<open>H5Acreate\<close> call is the file handle, not
  the handle \<^verbatim>\<open>H5Oopen\<close> returned for the parent.
\<close>

theorem attribute_always_created_on_file:
  "List.map_filter attribute_location
     (calls_made tr (write_attribute lib T parent name data tr s)) =
     (if respond lib tr (H5Oopen (file_id s) parent (H5P_DEFAULT lib)) < 0 then [] else [file_id s])"
  by (rule attribute_location_is_file)

text \<open>
  C2, at a concrete input: the file handle is 1, the parent \<open>/positions\<close> is opened as
  handle 10, and the attribute \<open>time\<close> is created on handle 1 (the file, that is its root
  group), not on handle 10. The value is then written to that attribute, with the native
  type of the value.
\<close>

theorem attribute_created_on_file_not_parent:
  "write_attribute lib_ok C_double ''/positions'' ''time'' 0 [] \<lparr>file_id = 1\<rparr> =
     Returns
       [(H5Oopen 1 ''/positions'' 0, 10), (H5Screate H5S_SCALAR, 11),
        (H5Acreate 1 ''time'' 202 11 0 0, 12), (H5Awrite 12 202 0, 13),
        (H5Aclose 12, 14), (H5Sclose 11, 15), (H5Oclose 10, 16)]
       \<lparr>file_id = 1\<rparr>
 \<and> List.map_filter opened_object
      (trace_of (write_attribute lib_ok C_double ''/positions'' ''time'' 0 [] \<lparr>file_id = 1\<rparr>)) = [10]
 \<and> List.map_filter attribute_location
      (calls_made [] (write_attribute lib_ok C_double ''/positions'' ''time'' 0 [] \<lparr>file_id = 1\<rparr>)) =
     [1]"
proof -
  have e: "write_attribute lib_ok C_double ''/positions'' ''time'' 0 [] \<lparr>file_id = 1\<rparr> =
     Returns
       [(H5Oopen 1 ''/positions'' 0, 10), (H5Screate H5S_SCALAR, 11),
        (H5Acreate 1 ''time'' 202 11 0 0, 12), (H5Awrite 12 202 0, 13),
        (H5Aclose 12, 14), (H5Sclose 11, 15), (H5Oclose 10, 16)]
       \<lparr>file_id = 1\<rparr>"
    by (simp add: write_attribute_def lib_ok_def lib_failing_def h5_simp)
  show ?thesis
    unfolding e
    by (simp add: calls_made_def List.map_filter_simps)
qed

section \<open>Failures\<close>

lemma create_returns:
  "create lib filename tr s = Returns tr' s' \<Longrightarrow>
   take (length tr) tr' = tr \<and> failed_checks (drop (length tr) tr') = []"
  by (auto simp: create_def h5_simp io_error_def failed_checks_def split: if_splits)

lemma close_returns:
  "close lib tr s = Returns tr' s' \<Longrightarrow>
   take (length tr) tr' = tr \<and> failed_checks (drop (length tr) tr') = []"
  by (auto simp: close_def h5_simp io_error_def failed_checks_def split: if_splits)

lemma write_dataset_nd_returns:
  assumes "write_dataset_nd lib T name rank dims data ft tr s = Returns tr' s'"
  shows "take (length tr) tr' = tr \<and> failed_checks (drop (length tr) tr') = []"
  using assms unfolding write_dataset_nd_def Let_def io_error_def
  by (auto simp: failed_checks_def split: prod.splits if_splits dest!: h5_trace)

lemma write_attribute_returns:
  assumes "write_attribute lib T parent name data tr s = Returns tr' s'"
  shows "take (length tr) tr' = tr \<and> failed_checks (drop (length tr) tr') = []"
  using assms unfolding write_attribute_def Let_def io_error_def
  by (auto simp: failed_checks_def split: prod.splits if_splits dest!: h5_trace)

lemma create_fatal_message:
  "create lib filename tr s = Fatal msg tr' \<Longrightarrow>
   take (length tr) tr' = tr \<and>
   (msg = ''Attempted to create file when already open!'' \<and> tr' = tr \<and> 0 \<le> file_id s
    \<or> msg = ''Failed to create output file: '' @ filename \<and> library_failure (drop (length tr) tr'))"
  by (auto simp: create_def h5_simp io_error_def failed_checks_def library_failure_def
      split: if_splits)

lemma close_fatal_message:
  "close lib tr s = Fatal msg tr' \<Longrightarrow>
   msg = ''Attempted to close file which is not open!'' \<and> tr' = tr \<and> file_id s < 0"
  by (auto simp: close_def h5_simp io_error_def split: if_splits)

lemma write_dataset_nd_fatal_message:
  assumes "write_dataset_nd lib T name rank dims data ft tr s = Fatal msg tr'"
  shows "take (length tr) tr' = tr \<and> library_failure (drop (length tr) tr') \<and>
         (msg = ''Failed to create dataset: '' @ name \<or> msg = ''Failed to write dataset: '' @ name)"
  using assms unfolding write_dataset_nd_def Let_def io_error_def
  by (auto simp: failed_checks_def library_failure_def
      split: prod.splits if_splits dest!: h5_trace)

lemma write_attribute_fatal_message:
  assumes "write_attribute lib T parent name data tr s = Fatal msg tr'"
  shows "take (length tr) tr' = tr \<and> library_failure (drop (length tr) tr') \<and>
         (msg = ''Unable to open object to write attribute: '' @ name
          \<or> msg = ''Unable to create attribute '' @ name @ '' on object '' @ parent
          \<or> msg = ''Unable to write attribute '' @ name @ '' on object '' @ parent)"
  using assms unfolding write_attribute_def Let_def io_error_def
  by (auto simp: failed_checks_def library_failure_def
      split: prod.splits if_splits dest!: h5_trace)

lemma write_dataset_nd_fatal_names:
  assumes "write_dataset_nd lib T name rank dims data ft tr s = Fatal msg tr'"
  shows "sublist name msg"
proof -
  from write_dataset_nd_fatal_message[OF assms]
  consider "msg = ''Failed to create dataset: '' @ name" | "msg = ''Failed to write dataset: '' @ name"
    by blast
  then show ?thesis
  proof cases
    case 1
    show ?thesis unfolding 1 by (rule sublist_append_leftI)
  next
    case 2
    show ?thesis unfolding 2 by (rule sublist_append_leftI)
  qed
qed

lemma write_attribute_fatal_names:
  assumes "write_attribute lib T parent name data tr s = Fatal msg tr'"
  shows "sublist name msg"
proof -
  from write_attribute_fatal_message[OF assms]
  consider "msg = ''Unable to open object to write attribute: '' @ name"
    | "msg = ''Unable to create attribute '' @ name @ '' on object '' @ parent"
    | "msg = ''Unable to write attribute '' @ name @ '' on object '' @ parent"
    by blast
  then show ?thesis
  proof cases
    case 1
    show ?thesis unfolding 1 by (rule sublist_append_leftI)
  next
    case 2
    show ?thesis unfolding 2 by (rule sublist_appendI)
  next
    case 3
    show ?thesis unfolding 3 by (rule sublist_appendI)
  qed
qed

lemma exec_returns:
  assumes "exec lib op tr s = Returns tr' s'"
  shows "take (length tr) tr' = tr \<and> failed_checks (drop (length tr) tr') = []"
proof (cases op)
  case (Create filename)
  with assms show ?thesis by (simp add: create_returns)
next
  case Close
  with assms show ?thesis by (simp add: close_returns)
next
  case (Write_dataset T name len data ft)
  with assms have "write_dataset_nd lib T name 1 [len] data ft tr s = Returns tr' s'"
    by (simp add: write_dataset_def)
  then show ?thesis by (rule write_dataset_nd_returns)
next
  case (Write_dataset_nd T name rank dims data ft)
  with assms have "write_dataset_nd lib T name rank dims data ft tr s = Returns tr' s'"
    by simp
  then show ?thesis by (rule write_dataset_nd_returns)
next
  case (Write_attribute T parent name data)
  with assms have "write_attribute lib T parent name data tr s = Returns tr' s'"
    by simp
  then show ?thesis by (rule write_attribute_returns)
qed

lemma exec_fatal:
  assumes "exec lib op tr s = Fatal msg tr'"
  shows "take (length tr) tr' = tr \<and>
     (msg = ''Attempted to create file when already open!'' \<and> tr' = tr \<and> 0 \<le> file_id s
      \<or> msg = ''Attempted to close file which is not open!'' \<and> tr' = tr \<and> file_id s < 0
      \<or> sublist (subject op) msg \<and> library_failure (drop (length tr) tr'))"
proof (cases op)
  case (Create filename)
  with assms have r: "create lib filename tr s = Fatal msg tr'" by simp
  have "sublist filename (''Failed to create output file: '' @ filename)"
    by (rule sublist_append_leftI)
  with create_fatal_message[OF r] Create show ?thesis by auto
next
  case Close
  with assms have r: "close lib tr s = Fatal msg tr'" by simp
  from close_fatal_message[OF r] show ?thesis by simp
next
  case (Write_dataset T name len data ft)
  with assms have r: "write_dataset_nd lib T name 1 [len] data ft tr s = Fatal msg tr'"
    by (simp add: write_dataset_def)
  from write_dataset_nd_fatal_message[OF r] write_dataset_nd_fatal_names[OF r] Write_dataset
  show ?thesis by simp
next
  case (Write_dataset_nd T name rank dims data ft)
  with assms have r: "write_dataset_nd lib T name rank dims data ft tr s = Fatal msg tr'"
    by simp
  from write_dataset_nd_fatal_message[OF r] write_dataset_nd_fatal_names[OF r] Write_dataset_nd
  show ?thesis by simp
next
  case (Write_attribute T parent name data)
  with assms have r: "write_attribute lib T parent name data tr s = Fatal msg tr'"
    by simp
  from write_attribute_fatal_message[OF r] write_attribute_fatal_names[OF r] Write_attribute
  show ?thesis by simp
qed

lemma library_answers_Cons2:
  "library_answers lib tr (e # e' # es) =
     (library_answers lib tr [e] \<and> library_answers lib (tr @ [e]) (e' # es))"
  by (cases e) (simp add: library_answers.simps)

lemma h5_step:
  "h5 lib c tr = (r, tr1) \<Longrightarrow> tr1 = tr @ [(c, r)] \<and> library_answers lib tr [(c, r)]"
  by (auto simp: h5_def Let_def library_answers.simps)

lemma library_answers_Nil: "library_answers lib tr []"
  by (simp add: library_answers.simps)

lemma create_answers:
  "library_answers lib tr (drop (length tr) (trace_of (create lib filename tr s)))"
  by (auto simp: create_def Let_def io_error_def library_answers_Nil
      split: prod.splits dest!: h5_step)

lemma close_answers:
  "library_answers lib tr (drop (length tr) (trace_of (close lib tr s)))"
  by (auto simp: close_def Let_def io_error_def library_answers_Nil
      split: prod.splits dest!: h5_step)

lemma write_dataset_nd_answers_Returns:
  assumes "write_dataset_nd lib T name rank dims data ft tr s = Returns tr' s'"
  shows "library_answers lib tr (drop (length tr) tr')"
  using assms unfolding write_dataset_nd_def Let_def io_error_def
  by (auto simp: library_answers_Cons2 split: prod.splits if_splits dest!: h5_step)

lemma write_dataset_nd_answers_Fatal:
  assumes "write_dataset_nd lib T name rank dims data ft tr s = Fatal msg tr'"
  shows "library_answers lib tr (drop (length tr) tr')"
  using assms unfolding write_dataset_nd_def Let_def io_error_def
  by (auto simp: library_answers_Cons2 split: prod.splits if_splits dest!: h5_step)

lemma write_dataset_nd_answers:
  "library_answers lib tr
     (drop (length tr) (trace_of (write_dataset_nd lib T name rank dims data ft tr s)))"
proof (cases "write_dataset_nd lib T name rank dims data ft tr s")
  case (Returns tr' s')
  with write_dataset_nd_answers_Returns[OF Returns] show ?thesis by simp
next
  case (Fatal msg tr')
  with write_dataset_nd_answers_Fatal[OF Fatal] show ?thesis by simp
qed

lemma write_attribute_answers_Returns:
  assumes "write_attribute lib T parent name data tr s = Returns tr' s'"
  shows "library_answers lib tr (drop (length tr) tr')"
  using assms unfolding write_attribute_def Let_def io_error_def
  by (auto simp: library_answers_Cons2 split: prod.splits if_splits dest!: h5_step)

lemma write_attribute_answers_Fatal:
  assumes "write_attribute lib T parent name data tr s = Fatal msg tr'"
  shows "library_answers lib tr (drop (length tr) tr')"
  using assms unfolding write_attribute_def Let_def io_error_def
  by (auto simp: library_answers_Cons2 split: prod.splits if_splits dest!: h5_step)

lemma write_attribute_answers:
  "library_answers lib tr
     (drop (length tr) (trace_of (write_attribute lib T parent name data tr s)))"
proof (cases "write_attribute lib T parent name data tr s")
  case (Returns tr' s')
  with write_attribute_answers_Returns[OF Returns] show ?thesis by simp
next
  case (Fatal msg tr')
  with write_attribute_answers_Fatal[OF Fatal] show ?thesis by simp
qed

lemma create_checks:
  "create lib filename tr s = Returns tr' s' \<Longrightarrow>
   checked_calls (drop (length tr) tr') = [''H5Fcreate'']"
  by (auto simp: create_def h5_simp io_error_def checked_calls_def split: if_splits)

lemma close_checks:
  "close lib tr s = Returns tr' s' \<Longrightarrow> checked_calls (drop (length tr) tr') = []"
  by (auto simp: close_def h5_simp io_error_def checked_calls_def split: if_splits)

lemma write_dataset_nd_checks:
  assumes "write_dataset_nd lib T name rank dims data ft tr s = Returns tr' s'"
  shows "checked_calls (drop (length tr) tr') = [''H5Dcreate'', ''H5Dwrite'']"
  using assms unfolding write_dataset_nd_def Let_def io_error_def
  by (auto simp: checked_calls_def split: prod.splits if_splits dest!: h5_trace)

lemma write_attribute_checks:
  assumes "write_attribute lib T parent name data tr s = Returns tr' s'"
  shows "checked_calls (drop (length tr) tr') = [''H5Oopen'', ''H5Acreate'', ''H5Awrite'']"
  using assms unfolding write_attribute_def Let_def io_error_def
  by (auto simp: checked_calls_def split: prod.splits if_splits dest!: h5_trace)

lemma exec_prefix: "take (length tr) (trace_of (exec lib op tr s)) = tr"
proof (cases "exec lib op tr s")
  case (Returns tr' s')
  with exec_returns[OF Returns] show ?thesis by simp
next
  case (Fatal msg tr')
  with exec_fatal[OF Fatal] show ?thesis by simp
qed

lemma exec_answers:
  "library_answers lib tr (drop (length tr) (trace_of (exec lib op tr s)))"
proof (cases op)
  case (Create filename)
  then show ?thesis by (simp add: create_answers)
next
  case Close
  then show ?thesis by (simp add: close_answers)
next
  case (Write_dataset T name len data ft)
  then show ?thesis by (simp add: write_dataset_def write_dataset_nd_answers)
next
  case (Write_dataset_nd T name rank dims data ft)
  then show ?thesis by (simp add: write_dataset_nd_answers)
next
  case (Write_attribute T parent name data)
  then show ?thesis by (simp add: write_attribute_answers)
qed

lemma exec_checks:
  assumes "exec lib op tr s = Returns tr' s'"
  shows "checked_calls (drop (length tr) tr') = checks_of op"
proof (cases op)
  case (Create filename)
  with assms have "create lib filename tr s = Returns tr' s'" by simp
  from create_checks[OF this] Create show ?thesis by simp
next
  case Close
  with assms have "close lib tr s = Returns tr' s'" by simp
  from close_checks[OF this] Close show ?thesis by simp
next
  case (Write_dataset T name len data ft)
  with assms have "write_dataset_nd lib T name 1 [len] data ft tr s = Returns tr' s'"
    by (simp add: write_dataset_def)
  from write_dataset_nd_checks[OF this] Write_dataset show ?thesis by simp
next
  case (Write_dataset_nd T name rank dims data ft)
  with assms have "write_dataset_nd lib T name rank dims data ft tr s = Returns tr' s'"
    by simp
  from write_dataset_nd_checks[OF this] Write_dataset_nd show ?thesis by simp
next
  case (Write_attribute T parent name data)
  with assms have "write_attribute lib T parent name data tr s = Returns tr' s'"
    by simp
  from write_attribute_checks[OF this] Write_attribute show ?thesis by simp
qed

lemma exec_misuse:
  "misuse op s \<Longrightarrow>
   exec lib op tr s =
     Fatal (if op = Close then ''Attempted to close file which is not open!''
            else ''Attempted to create file when already open!'') tr"
  by (cases op) (simp_all add: create_def close_def io_error_def)

lemma library_failure_failed: "library_failure es \<Longrightarrow> failed_checks es \<noteq> []"
proof -
  assume a: "library_failure es"
  then have "es \<noteq> []" by (simp add: library_failure_def)
  then have "es = butlast es @ [last es]" by simp
  then have "failed_checks es = failed_checks (butlast es) @ failed_checks [last es]"
    unfolding failed_checks_def by (metis filter_append)
  with a show ?thesis by (simp add: library_failure_def failed_checks_def)
qed

lemma exec_aborted_iff:
  "aborted (exec lib op tr s) \<longleftrightarrow>
     misuse op s \<or> failed_checks (drop (length tr) (trace_of (exec lib op tr s))) \<noteq> []"
proof (cases "exec lib op tr s")
  case (Returns tr' s')
  have "\<not> misuse op s"
  proof
    assume "misuse op s"
    from exec_misuse[OF this, of lib tr] Returns show False by simp
  qed
  with exec_returns[OF Returns] Returns show ?thesis by simp
next
  case (Fatal msg tr')
  from exec_fatal[OF Fatal] consider
      "msg = ''Attempted to create file when already open!''" "tr' = tr" "0 \<le> file_id s"
    | "msg = ''Attempted to close file which is not open!''" "tr' = tr" "file_id s < 0"
    | "library_failure (drop (length tr) tr')"
    by blast
  then have "misuse op s \<or> failed_checks (drop (length tr) tr') \<noteq> []"
  proof cases
    case 1
    have "misuse op s"
    proof (cases op)
      case (Create filename)
      with 1 show ?thesis by simp
    next
      case Close
      with Fatal close_fatal_message[of lib tr s msg tr'] 1 show ?thesis by simp
    next
      case (Write_dataset T name len data ft)
      with Fatal have "write_dataset_nd lib T name 1 [len] data ft tr s = Fatal msg tr'"
        by (simp add: write_dataset_def)
      from write_dataset_nd_fatal_message[OF this] 1 show ?thesis
        by (simp add: library_failure_def)
    next
      case (Write_dataset_nd T name rank dims data ft)
      with Fatal have "write_dataset_nd lib T name rank dims data ft tr s = Fatal msg tr'"
        by simp
      from write_dataset_nd_fatal_message[OF this] 1 show ?thesis
        by (simp add: library_failure_def)
    next
      case (Write_attribute T parent name data)
      with Fatal have "write_attribute lib T parent name data tr s = Fatal msg tr'"
        by simp
      from write_attribute_fatal_message[OF this] 1 show ?thesis
        by (simp add: library_failure_def)
    qed
    then show ?thesis ..
  next
    case 2
    have "misuse op s"
    proof (cases op)
      case (Create filename)
      with Fatal have "create lib filename tr s = Fatal msg tr'" by simp
      from create_fatal_message[OF this] 2 show ?thesis
        by (auto simp: library_failure_def)
    next
      case Close
      with 2 show ?thesis by simp
    next
      case (Write_dataset T name len data ft)
      with Fatal have "write_dataset_nd lib T name 1 [len] data ft tr s = Fatal msg tr'"
        by (simp add: write_dataset_def)
      from write_dataset_nd_fatal_message[OF this] 2 show ?thesis
        by (simp add: library_failure_def)
    next
      case (Write_dataset_nd T name rank dims data ft)
      with Fatal have "write_dataset_nd lib T name rank dims data ft tr s = Fatal msg tr'"
        by simp
      from write_dataset_nd_fatal_message[OF this] 2 show ?thesis
        by (simp add: library_failure_def)
    next
      case (Write_attribute T parent name data)
      with Fatal have "write_attribute lib T parent name data tr s = Fatal msg tr'"
        by simp
      from write_attribute_fatal_message[OF this] 2 show ?thesis
        by (simp add: library_failure_def)
    qed
    then show ?thesis ..
  next
    case 3
    from library_failure_failed[OF 3] show ?thesis ..
  qed
  with Fatal show ?thesis by simp
qed

text \<open>
  C8, as the code has it. No method hands a failure back to its caller: a call either
  returns or ends the process with a message. \<open>create\<close> with a handle held and \<open>close\<close>
  with none end the process, with fixed messages that name nothing. Every answer in the
  trace is the library's own, and a call ends the process exactly when it is one of these
  two misuses or a checked library call it made (\<^verbatim>\<open>H5Fcreate\<close>, \<^verbatim>\<open>H5Dcreate\<close>,
  \<^verbatim>\<open>H5Dwrite\<close>, \<^verbatim>\<open>H5Oopen\<close>, \<^verbatim>\<open>H5Acreate\<close>, \<^verbatim>\<open>H5Awrite\<close>) answered a negative
  value; in the second case the failing call is the last one made and the message contains
  the file, dataset or attribute name. A return means that the method made all its
  checked calls and each answered a non-negative value; it says nothing about the calls
  whose results are dropped.
\<close>

theorem detected_failures_are_fatal:
  "(0 \<le> file_id s \<longrightarrow>
      exec lib (Create filename) tr s = Fatal ''Attempted to create file when already open!'' tr)
 \<and> (file_id s < 0 \<longrightarrow>
      exec lib Close tr s = Fatal ''Attempted to close file which is not open!'' tr)
 \<and> take (length tr) (trace_of (exec lib op tr s)) = tr
 \<and> library_answers lib tr (drop (length tr) (trace_of (exec lib op tr s)))
 \<and> (aborted (exec lib op tr s) \<longleftrightarrow>
      misuse op s \<or> failed_checks (drop (length tr) (trace_of (exec lib op tr s))) \<noteq> [])
 \<and> (exec lib op tr s = Returns tr' s' \<longrightarrow>
      failed_checks (drop (length tr) tr') = []
    \<and> checked_calls (drop (length tr) tr') = checks_of op)
 \<and> (exec lib op tr s = Fatal msg tr' \<longrightarrow>
      (msg = ''Attempted to create file when already open!'' \<and> tr' = tr \<and> 0 \<le> file_id s
       \<or> msg = ''Attempted to close file which is not open!'' \<and> tr' = tr \<and> file_id s < 0
       \<or> sublist (subject op) msg \<and> library_failure (drop (length tr) tr')))"
  using exec_returns[of lib op tr s tr' s'] exec_fatal[of lib op tr s msg tr']
    exec_checks[of lib op tr s tr' s'] exec_prefix[of tr lib op s] exec_answers[of lib tr op s]
    exec_aborted_iff[of lib op tr s]
  by (simp add: create_def close_def io_error_def)

theorem detected_failures_are_fatal_witness:
  "exec (lib_failing is_H5Dcreate) (Create ''out.h5'') [] \<lparr>file_id = 1\<rparr> =
     Fatal ''Attempted to create file when already open!'' []
 \<and> exec lib_ok Close [] \<lparr>file_id = - 1\<rparr> = Fatal ''Attempted to close file which is not open!'' []
 \<and> exec (lib_failing is_H5Dcreate) (Write_dataset C_int ''/ids'' 4 0 (- 1)) [] \<lparr>file_id = 1\<rparr> =
     Fatal ''Failed to create dataset: /ids''
       [(H5Screate_simple 1 [4], 10), (H5Pcreate 100, 11), (H5Dcreate 1 ''/ids'' 203 10 0 0 0, - 1)]
 \<and> sublist ''/ids'' ''Failed to create dataset: /ids''
 \<and> library_failure
       [(H5Screate_simple 1 [4], 10), (H5Pcreate 100, 11), (H5Dcreate 1 ''/ids'' 203 10 0 0 0, - 1 :: int)
          :: nat h5call \<times> int]
 \<and> library_answers (lib_failing is_H5Dcreate) []
       [(H5Screate_simple 1 [4], 10), (H5Pcreate 100, 11), (H5Dcreate 1 ''/ids'' 203 10 0 0 0, - 1)]
 \<and> aborted
       (exec (lib_failing is_H5Dcreate) (Write_dataset C_int ''/ids'' 4 0 (- 1)) [] \<lparr>file_id = 1\<rparr>)
 \<and> exec lib_ok (Create ''out.h5'') [] \<lparr>file_id = - 1\<rparr> =
     Returns [(H5Fcreate ''out.h5'' 2 0 0, 10)] \<lparr>file_id = 10\<rparr>
 \<and> failed_checks [(H5Fcreate ''out.h5'' 2 0 0, 10 :: int) :: nat h5call \<times> int] = []
 \<and> checked_calls [(H5Fcreate ''out.h5'' 2 0 0, 10 :: int) :: nat h5call \<times> int] = [''H5Fcreate'']"
proof -
  have r: "(1::int) = int (length [4::hsize_t])" by simp
  have a: "nonzero_size_loop 0 1 [4] 1 \<noteq> 0" "\<not> large_dataset_loop 0 1 [4] 0 \<noteq> 0"
    by (simp_all add: nonzero_size_whole[OF r] large_dataset_whole[OF r] CHUNK_SIZE_def)
  have f: "exec (lib_failing is_H5Dcreate) (Write_dataset C_int ''/ids'' 4 0 (- 1)) [] \<lparr>file_id = 1\<rparr> =
     Fatal ''Failed to create dataset: /ids''
       [(H5Screate_simple 1 [4], 10), (H5Pcreate 100, 11), (H5Dcreate 1 ''/ids'' 203 10 0 0 0, - 1)]"
    using a by (simp add: write_dataset_def write_dataset_nd_def lib_failing_def h5_simp io_error_def)
  have g: "exec lib_ok (Create ''out.h5'') [] \<lparr>file_id = - 1\<rparr> =
     Returns [(H5Fcreate ''out.h5'' 2 0 0, 10)] \<lparr>file_id = 10\<rparr>"
    by (simp add: create_def lib_ok_def lib_failing_def h5_simp)
  show ?thesis
    using detected_failures_are_fatal[where lib = "lib_failing is_H5Dcreate"
            and op = "Write_dataset C_int ''/ids'' 4 0 (- 1)" and tr = "[]"
            and filename = "''out.h5''"
            and s = "\<lparr>file_id = 1\<rparr>" and s' = "\<lparr>file_id = 1\<rparr>"
            and msg = "''Failed to create dataset: /ids''"
            and tr' = "[(H5Screate_simple 1 [4], 10), (H5Pcreate 100, 11),
                        (H5Dcreate 1 ''/ids'' 203 10 0 0 0, - 1)]"]
          detected_failures_are_fatal[where lib = lib_ok and op = "Create ''out.h5''" and tr = "[]"
            and filename = "''out.h5''"
            and s = "\<lparr>file_id = - 1\<rparr>" and s' = "\<lparr>file_id = 10\<rparr>" and msg = "[]"
            and tr' = "[(H5Fcreate ''out.h5'' 2 0 0, 10)]"]
          f g
    by simp
qed

text \<open>
  The claim as stated fails twice. \<open>create\<close> on an object that holds a handle ends with
  a message that does not contain the file name it was given; and \<open>close\<close> returns
  normally although \<^verbatim>\<open>H5Fclose\<close> failed, so a return does not imply that the
  operation fully succeeded.
\<close>

theorem failure_naming_counterexample:
  "create lib_ok ''out.h5'' [] \<lparr>file_id = 10\<rparr> =
     Fatal ''Attempted to create file when already open!'' []
 \<and> \<not> sublist ''out.h5'' ''Attempted to create file when already open!''
 \<and> close (lib_failing is_H5Fclose) [] \<lparr>file_id = 10\<rparr> =
     Returns [(H5Fclose 10, - 1)] \<lparr>file_id = - 1\<rparr>"
  by (simp add: create_def close_def lib_ok_def lib_failing_def h5_simp io_error_def
      sublist_Cons_right)

end
